theory Spec2Isabelle
  imports Complex_Main "HOL-Library.Word"
begin

unbundle bit_operations_syntax

section \<open>PsychHID 'SetReport': data model\<close>

text \<open>
  The development embeds \<^verbatim>\<open>PSYCHHIDSetReport\<close> of
  \<^verbatim>\<open>Source/Common/PsychHID/PsychHIDSetReport.c\<close>, from the size checks of lines
  109-117 to the construction of the returned struct in lines 186-189. The argument
  marshalling of lines 64-107 is outside the model: the call starts with
  \<^verbatim>\<open>deviceIndex\<close>, \<^verbatim>\<open>reportType\<close> and \<^verbatim>\<open>reportID\<close> already read as C
  \<^verbatim>\<open>int\<close>s and with \<^verbatim>\<open>reportBuffer\<close> pointing at the bytes of the caller's array,
  \<^verbatim>\<open>reportSize\<close> being their number. That number is taken to fit the C \<^verbatim>\<open>int\<close>
  that holds it: the model is of calls with an array of fewer than \<open>2 ^ 31\<close> bytes.
\<close>

type_synonym byte = "8 word"
type_synonym cint = "32 word"
type_synonym handle = nat

text \<open>
  The two things the build fixes: \<^verbatim>\<open>PSYCH_SYSTEM\<close>, which selects the backend in the
  \<^verbatim>\<open>#if\<close> of line 134, and \<^verbatim>\<open>MAXREPORTSIZE\<close>, a macro of \<^verbatim>\<open>PsychHID.h\<close> whose
  value this file does not show and which is therefore a parameter.
\<close>

datatype platform = PSYCH_OSX | PSYCH_LINUX | PSYCH_WINDOWS

record build =
  PSYCH_SYSTEM :: platform
  MAXREPORTSIZE :: nat

text \<open>
  What \<^verbatim>\<open>reportBuffer\<close> points at: the caller's array, or the function's static
  \<^verbatim>\<open>scratchBuffer\<close> after the assignment of line 155.
\<close>

datatype bufptr = UserBuffer | ScratchBuffer

text \<open>
  Everything the function does to the outside world, in the order it does it. A backend
  call records the pointer it was given, the bytes it can read through that pointer (as
  many as the size argument says) and the size argument itself.
\<close>

datatype event =
    VerifyInit
  | GetDeviceRecordPtr cint
  | Printf string "int list"
  | GetDeviceInterfacePtr cint
  | IOHID_setReport handle cint cint bufptr "byte list" "32 word" nat
  | HID_write handle bufptr "byte list" nat
  | HID_send_feature_report handle bufptr "byte list" nat
  | GetPrecisionTimerSeconds
  | HIDErrors "handle option" int

text \<open>
  The ways the call ends without returning. \<^verbatim>\<open>PsychErrorExitMsg\<close> carries the error
  code and \<^verbatim>\<open>PrintfExit\<close> only a message. \<open>MemoryFault\<close> is not an exit of the C
  code: it stands for the undefined behaviour of an access outside a buffer, so that the
  absence of such an access is a property of the model and not an assumption built into it.
\<close>

datatype psych_error = PsychError_user

datatype abort =
    PsychErrorExitMsg psych_error string
  | PrintfExit string
  | MemoryFault

definition SizeError :: abort where
  "SizeError = PsychErrorExitMsg PsychError_user
     ''Tried to send a HID report which exceeds the maximum allowable size! Aborted.''"

definition EmptyReportError :: abort where
  "EmptyReportError = PsychErrorExitMsg PsychError_user
     ''Tried to send an empty HID report! Aborted.''"

definition InvalidTypeError :: abort where
  "InvalidTypeError = PsychErrorExitMsg PsychError_user
     (''Invalid '' @ [CHR 0x27] @ ''reportType'' @ [CHR 0x27] @ '' for this function provided!'')"

definition BadInterface :: abort where
  "BadInterface = PrintfExit (''PsychHID SetReport: Bad interface.'' @ [CHR 0x0A])"

text \<open>The struct returned to the caller: fields \<^verbatim>\<open>n\<close>, \<^verbatim>\<open>name\<close>, \<^verbatim>\<open>description\<close>.\<close>

record err_struct =
  err_n :: int
  err_name :: string
  err_description :: string

text \<open>
  The memory the function touches: the caller's array, the static scratch buffer, the
  global \<^verbatim>\<open>AInScanStart\<close>, and the log of events.
\<close>

record state =
  user_report :: "byte list"
  scratchBuffer :: "byte list"
  AInScanStart :: real
  trace :: "event list"

text \<open>
  The collaborators that are not in this file, as parameters: the device table, the two
  backends (only what they return; that they were called is in the trace), the timer and
  the error lookup.
\<close>

record env =
  PsychHIDGetDeviceRecordPtrFromIndex :: "cint \<Rightarrow> handle"
  PsychHIDGetDeviceInterfacePtrFromIndex :: "cint \<Rightarrow> handle option"
  setReport :: "handle \<Rightarrow> cint \<Rightarrow> cint \<Rightarrow> byte list \<Rightarrow> 32 word \<Rightarrow> nat \<Rightarrow> int"
  hid_write :: "handle \<Rightarrow> byte list \<Rightarrow> nat \<Rightarrow> int"
  hid_send_feature_report :: "handle \<Rightarrow> byte list \<Rightarrow> nat \<Rightarrow> int"
  PsychGetPrecisionTimerSeconds :: real
  PsychHIDErrors :: "handle option \<Rightarrow> int \<Rightarrow> string \<times> string"

section \<open>Memory operations\<close>

definition emit :: "event list \<Rightarrow> state \<Rightarrow> state" where
  "emit evs s = s\<lparr>trace := trace s @ evs\<rparr>"

definition deref :: "bufptr \<Rightarrow> state \<Rightarrow> byte list" where
  "deref p s = (case p of UserBuffer \<Rightarrow> user_report s | ScratchBuffer \<Rightarrow> scratchBuffer s)"

text \<open>The bytes a callee can read through pointer \<open>p\<close> when told the size \<open>n\<close>.\<close>

definition bytes_at :: "bufptr \<Rightarrow> int \<Rightarrow> state \<Rightarrow> byte list" where
  "bytes_at p n s = take (nat n) (deref p s)"

text \<open>\<^verbatim>\<open>*reportBuffer = v\<close>: a store to the first byte of the caller's array.\<close>

definition store_first :: "byte \<Rightarrow> state \<Rightarrow> state option" where
  "store_first v s =
     (if length (user_report s) < 1 then None
      else Some (s\<lparr>user_report := (user_report s)[0 := v]\<rparr>))"

text \<open>
  \<^verbatim>\<open>memcpy(&dst[off], src, n)\<close>: \<open>None\<close> when it would read past the end of \<open>src\<close> or
  write past the end of \<open>dst\<close>.
\<close>

definition memcpy :: "byte list \<Rightarrow> nat \<Rightarrow> byte list \<Rightarrow> nat \<Rightarrow> byte list option" where
  "memcpy dst off src n =
     (if length src < n \<or> length dst < off + n then None
      else Some (take off dst @ take n src @ drop (off + n) dst))"

section \<open>The function\<close>

text \<open>Line 124: the low byte of a nonzero \<^verbatim>\<open>reportID\<close> goes to the first byte.\<close>

definition inject_reportID :: "cint \<Rightarrow> state \<Rightarrow> state option" where
  "inject_reportID reportID s =
     (if reportID \<noteq> 0 then store_first (ucast (0xff AND reportID)) s else Some s)"

text \<open>Lines 128-131: the echo of the arguments; the loop of line 129 runs over the bytes.\<close>

primrec echo_bytes :: "byte list \<Rightarrow> event list" where
  "echo_bytes [] = []"
| "echo_bytes (b # bs) = Printf ''%d '' [uint b] # echo_bytes bs"

definition echo_report :: "cint \<Rightarrow> cint \<Rightarrow> bufptr \<Rightarrow> int \<Rightarrow> state \<Rightarrow> int \<times> state" where
  "echo_report reportType reportID reportBuffer reportSize s =
     (0, emit ([Printf ''SetReport(reportType %d, reportID %d, report ''
                  [sint reportType, sint reportID]]
               @ echo_bytes (bytes_at reportBuffer reportSize s)
               @ [Printf ('')'' @ [CHR 0x0A]) []]) s)"

text \<open>Lines 143-144 and 174-175: the time stamp of report 0x11.\<close>

definition timestamp :: "env \<Rightarrow> cint \<Rightarrow> state \<Rightarrow> state" where
  "timestamp e reportID s =
     (if reportID = 0x11
      then emit [GetPrecisionTimerSeconds] (s\<lparr>AInScanStart := PsychGetPrecisionTimerSeconds e\<rparr>)
      else s)"

text \<open>
  Lines 135-147, the OS X backend. The result is the error code with the name and
  description that \<^verbatim>\<open>PsychHIDErrors\<close> found for it.
\<close>

definition send_osx ::
  "env \<Rightarrow> cint \<Rightarrow> cint \<Rightarrow> cint \<Rightarrow> bufptr \<Rightarrow> int \<Rightarrow> state \<Rightarrow> (abort + err_struct) \<times> state" where
  "send_osx e deviceIndex reportType reportID reportBuffer reportSize s =
     (let s1 = emit [GetDeviceInterfacePtr deviceIndex] s in
      case PsychHIDGetDeviceInterfacePtrFromIndex e deviceIndex of
        None \<Rightarrow> (Inl BadInterface, s1)
      | Some interface \<Rightarrow>
          (let buf = bytes_at reportBuffer reportSize s1;
               err = setReport e interface (reportType - 1) reportID buf (word_of_int reportSize) 50;
               s2 = emit [IOHID_setReport interface (reportType - 1) reportID reportBuffer buf
                            (word_of_int reportSize) 50] s1;
               s3 = timestamp e reportID s2;
               (name, description) = PsychHIDErrors e None err;
               s4 = emit [HIDErrors None err] s3
           in (Inr \<lparr>err_n = err, err_name = name, err_description = description\<rparr>, s4)))"

text \<open>
  Lines 152-157, the framing of a report without ID for the HIDAPI backend: the report is
  copied behind a zero byte in the scratch buffer, and pointer and size are redirected.
\<close>

definition frame_zero_id :: "bufptr \<Rightarrow> int \<Rightarrow> state \<Rightarrow> (bufptr \<times> int \<times> state) option" where
  "frame_zero_id reportBuffer reportSize s =
     (case memcpy (scratchBuffer s) 1 (deref reportBuffer s) (nat reportSize) of
        None \<Rightarrow> None
      | Some m \<Rightarrow>
          if length m < 1 then None
          else Some (ScratchBuffer, reportSize + 1, s\<lparr>scratchBuffer := m[0 := 0]\<rparr>))"

text \<open>Lines 149-182, the HIDAPI backend.\<close>

definition send_hidapi ::
  "env \<Rightarrow> handle \<Rightarrow> cint \<Rightarrow> cint \<Rightarrow> bufptr \<Rightarrow> int \<Rightarrow> state \<Rightarrow> (abort + err_struct) \<times> state" where
  "send_hidapi e device reportType reportID reportBuffer reportSize s =
     (case (if reportID = 0 then frame_zero_id reportBuffer reportSize s
            else Some (reportBuffer, reportSize, s)) of
        None \<Rightarrow> (Inl MemoryFault, s)
      | Some (reportBuffer', reportSize', s1) \<Rightarrow>
          (let buf = bytes_at reportBuffer' reportSize' s1;
               (err, s2) =
                  (if reportType = 2
                   then (hid_write e device buf (nat reportSize'),
                         emit [HID_write device reportBuffer' buf (nat reportSize')] s1)
                   else (hid_send_feature_report e device buf (nat reportSize'),
                         emit [HID_send_feature_report device reportBuffer' buf (nat reportSize')] s1));
               s3 = timestamp e reportID s2;
               err' = (if err \<ge> 0 then 0 else err);
               (name, description) = PsychHIDErrors e (Some device) err';
               s4 = emit [HIDErrors (Some device) err'] s3
           in (Inr \<lparr>err_n = err', err_name = name, err_description = description\<rparr>, s4)))"

text \<open>
  Lines 97 and 105: \<^verbatim>\<open>reportSize\<close> is a C \<^verbatim>\<open>int\<close> that receives the number of bytes
  of the caller's array. For an array of fewer than \<open>2 ^ 31\<close> bytes it is that number;
  a larger number does not fit and the variable holds its low 32 bits, read as signed.
\<close>

definition reportSize_of :: "nat \<Rightarrow> int" where
  "reportSize_of n = sint (word_of_nat n :: cint)"

text \<open>
  Lines 109-191, for a caller's array of fewer than \<open>2 ^ 31\<close> bytes, where
  \<^verbatim>\<open>reportSize\<close> is the length of the array (\<open>reportSize_exact\<close> below).
\<close>

definition PSYCHHIDSetReport ::
  "build \<Rightarrow> env \<Rightarrow> cint \<Rightarrow> cint \<Rightarrow> cint \<Rightarrow> state \<Rightarrow> (abort + err_struct) \<times> state" where
  "PSYCHHIDSetReport b e deviceIndex reportType reportID s =
     (let reportSize = int (length (user_report s)) in
      if reportSize > int (MAXREPORTSIZE b) then (Inl SizeError, s)
      else if reportSize < 1 then (Inl EmptyReportError, s)
      else if reportType <s 0 \<or> 3 <s reportType \<or> reportType = 1 then (Inl InvalidTypeError, s)
      else
        (let s1 = emit [VerifyInit, GetDeviceRecordPtr deviceIndex] s;
             device = PsychHIDGetDeviceRecordPtrFromIndex e deviceIndex
         in case inject_reportID reportID s1 of
              None \<Rightarrow> (Inl MemoryFault, s1)
            | Some s2 \<Rightarrow>
                if reportType = 0 then
                  (let (err, s3) = echo_report reportType reportID UserBuffer reportSize s2
                   in (Inr \<lparr>err_n = err, err_name = [], err_description = []\<rparr>, s3))
                else if PSYCH_SYSTEM b = PSYCH_OSX
                  then send_osx e deviceIndex reportType reportID UserBuffer reportSize s2
                  else send_hidapi e device reportType reportID UserBuffer reportSize s2))"

section \<open>Vocabulary of the properties\<close>

text \<open>A report whose size passes the checks of lines 109-113.\<close>

definition valid_report :: "build \<Rightarrow> state \<Rightarrow> bool" where
  "valid_report b s \<longleftrightarrow>
     1 \<le> length (user_report s) \<and> length (user_report s) \<le> MAXREPORTSIZE b"

text \<open>The three exits of lines 109-117.\<close>

definition validation_errors :: "abort set" where
  "validation_errors = {SizeError, EmptyReportError, InvalidTypeError}"

text \<open>The caller's bytes as line 124 leaves them.\<close>

definition injected :: "cint \<Rightarrow> byte list \<Rightarrow> byte list" where
  "injected reportID bs = (if reportID \<noteq> 0 then bs[0 := ucast (0xff AND reportID)] else bs)"

text \<open>
  What the HIDAPI backend returns for a buffer, and the event of that call: the write for
  an output report, the feature report otherwise, as in lines 160-171.
\<close>

definition hid_send :: "env \<Rightarrow> cint \<Rightarrow> handle \<Rightarrow> byte list \<Rightarrow> int" where
  "hid_send e reportType device buf =
     (if reportType = 2 then hid_write e device buf (length buf)
      else hid_send_feature_report e device buf (length buf))"

definition hid_event :: "cint \<Rightarrow> handle \<Rightarrow> bufptr \<Rightarrow> byte list \<Rightarrow> event" where
  "hid_event reportType device p buf =
     (if reportType = 2 then HID_write device p buf (length buf)
      else HID_send_feature_report device p buf (length buf))"

definition stamp_events :: "cint \<Rightarrow> event list" where
  "stamp_events reportID = (if reportID = 0x11 then [GetPrecisionTimerSeconds] else [])"

definition stamp_value :: "env \<Rightarrow> cint \<Rightarrow> real \<Rightarrow> real" where
  "stamp_value e reportID old =
     (if reportID = 0x11 then PsychGetPrecisionTimerSeconds e else old)"

text \<open>The returned struct for an error code that went through the error lookup.\<close>

definition struct_of :: "env \<Rightarrow> handle option \<Rightarrow> int \<Rightarrow> err_struct" where
  "struct_of e dev code =
     \<lparr>err_n = code, err_name = fst (PsychHIDErrors e dev code),
      err_description = snd (PsychHIDErrors e dev code)\<rparr>"

text \<open>
  Reading a trace: the buffers handed to a backend (pointer and bytes), in order, and the
  number of time stamps taken.
\<close>

fun transmission :: "event \<Rightarrow> (bufptr \<times> byte list) option" where
  "transmission (IOHID_setReport h t i p bs n ms) = Some (p, bs)"
| "transmission (HID_write h p bs n) = Some (p, bs)"
| "transmission (HID_send_feature_report h p bs n) = Some (p, bs)"
| "transmission _ = None"

primrec transmissions :: "event list \<Rightarrow> (bufptr \<times> byte list) list" where
  "transmissions [] = []"
| "transmissions (ev # evs) =
     (case transmission ev of None \<Rightarrow> transmissions evs | Some t \<Rightarrow> t # transmissions evs)"

definition captures :: "event list \<Rightarrow> nat" where
  "captures evs = length (filter (\<lambda>ev. ev = GetPrecisionTimerSeconds) evs)"

text \<open>
  A test double for the collaborators, used where a property is run on a concrete call:
  device \<open>i\<close> has handle \<open>i\<close>, every backend call returns \<open>ret\<close>, the timer reads 42
  and the error lookup names every nonzero code.
\<close>

definition mock :: "int \<Rightarrow> env" where
  "mock ret =
     \<lparr>PsychHIDGetDeviceRecordPtrFromIndex = (\<lambda>i. unat i),
      PsychHIDGetDeviceInterfacePtrFromIndex = (\<lambda>i. Some (unat i)),
      setReport = (\<lambda>h t i bs n ms. ret),
      hid_write = (\<lambda>h bs n. ret),
      hid_send_feature_report = (\<lambda>h bs n. ret),
      PsychGetPrecisionTimerSeconds = 42,
      PsychHIDErrors = (\<lambda>h c. if c = 0 then ([], []) else (''error'', ''failed''))\<rparr>"

definition mock_build :: "platform \<Rightarrow> build" where
  "mock_build p = \<lparr>PSYCH_SYSTEM = p, MAXREPORTSIZE = 4\<rparr>"

definition mock_state :: "byte list \<Rightarrow> state" where
  "mock_state bs =
     \<lparr>user_report = bs, scratchBuffer = [9, 9, 9, 9, 9], AInScanStart = 0, trace = []\<rparr>"

section \<open>The paths through the function\<close>

lemma type_check:
  "(\<not> (rt <s 0 \<or> 3 <s rt \<or> rt = 1)) = (rt \<in> {0, 2, (3::cint)})"
proof
  assume a: "\<not> (rt <s 0 \<or> 3 <s rt \<or> rt = 1)"
  then have "0 \<le> sint rt" "sint rt \<le> 3"
    by (simp_all add: word_sless_alt)
  then have "sint rt \<in> {0, 1, 2, 3}"
    by auto
  moreover have "rt = word_of_int (sint rt)"
    by simp
  ultimately have "rt \<in> {0, 1, 2, 3}"
    by (metis insert_iff empty_iff word_of_int_0 word_of_int_1 word_of_int_numeral)
  with a show "rt \<in> {0, 2, 3}"
    by auto
next
  assume "rt \<in> {0, 2, 3}"
  then show "\<not> (rt <s 0 \<or> 3 <s rt \<or> rt = 1)"
    by (auto simp: word_sless_alt)
qed

lemma low_byte: "uint (ucast (0xff AND rid) :: byte) = uint (rid::cint) mod 256"
proof -
  have "(0xff :: cint) = mask 8"
    by (simp add: mask_eq_exp_minus_1)
  then have "0xff AND rid = take_bit 8 rid"
    by (simp add: and.commute take_bit_eq_mask)
  then have "uint (ucast (0xff AND rid) :: byte) = take_bit 8 (take_bit 8 (uint rid))"
    by (simp only: unsigned_ucast_eq unsigned_take_bit_eq) simp
  then show ?thesis
    by (simp add: take_bit_eq_mod)
qed

lemma low_byte_id:
  fixes rid :: cint
  assumes "1 \<le> sint rid" "sint rid \<le> 255"
  shows "uint (ucast (0xff AND rid) :: byte) = sint rid"
proof -
  have "take_bit 32 (sint rid) = sint rid"
    using assms by (simp add: take_bit_int_eq_self)
  then have "uint rid = sint rid"
    using uint_sint [of rid] by simp
  then show ?thesis
    using assms by (simp add: low_byte)
qed

lemma inject_valid:
  "1 \<le> length (user_report s) \<Longrightarrow>
   inject_reportID rid s = Some (s\<lparr>user_report := injected rid (user_report s)\<rparr>)"
  by (auto simp add: inject_reportID_def store_first_def injected_def)

lemma length_injected: "length (injected rid bs) = length bs"
  by (simp add: injected_def)

lemma memcpy_in_bounds:
  "length src = n \<Longrightarrow> off + n \<le> length dst \<Longrightarrow>
   memcpy dst off src n = Some (take off dst @ src @ drop (off + n) dst)"
  by (simp add: memcpy_def)

lemma transmissions_append:
  "transmissions (xs @ ys) = transmissions xs @ transmissions ys"
  by (induction xs) (simp_all split: option.splits)

lemma transmissions_echo_bytes: "transmissions (echo_bytes bs) = []"
  by (induction bs) simp_all

lemma captures_append: "captures (xs @ ys) = captures xs + captures ys"
  by (simp add: captures_def)

lemma captures_echo_bytes: "captures (echo_bytes bs) = 0"
  by (induction bs) (simp_all add: captures_def)

text \<open>Once the three checks have passed, the call is the injection and one of three paths.\<close>

lemma validated:
  assumes "valid_report b s" "rt \<in> {0, 2, 3}"
  shows "PSYCHHIDSetReport b e di rt rid s =
     (let s2 = s\<lparr>user_report := injected rid (user_report s),
                 trace := trace s @ [VerifyInit, GetDeviceRecordPtr di]\<rparr>;
          n = int (length (user_report s)) in
      if rt = 0 then
         (let (err, s3) = echo_report rt rid UserBuffer n s2
          in (Inr \<lparr>err_n = err, err_name = [], err_description = []\<rparr>, s3))
      else if PSYCH_SYSTEM b = PSYCH_OSX then send_osx e di rt rid UserBuffer n s2
      else send_hidapi e (PsychHIDGetDeviceRecordPtrFromIndex e di) rt rid UserBuffer n s2)"
proof -
  have t: "\<not> (rt <s 0 \<or> 3 <s rt \<or> rt = 1)"
    using assms(2) by (simp only: type_check)
  have i: "inject_reportID rid (emit [VerifyInit, GetDeviceRecordPtr di] s)
        = Some (s\<lparr>user_report := injected rid (user_report s),
                 trace := trace s @ [VerifyInit, GetDeviceRecordPtr di]\<rparr>)"
    using assms(1) by (simp add: inject_valid valid_report_def emit_def)
  show ?thesis
    unfolding PSYCHHIDSetReport_def Let_def using assms(1) t
    by (simp only: i) (auto simp add: valid_report_def)
qed

lemma echo_path:
  assumes "valid_report b s"
  shows "PSYCHHIDSetReport b e di 0 rid s =
     (Inr \<lparr>err_n = 0, err_name = [], err_description = []\<rparr>,
      s\<lparr>user_report := injected rid (user_report s),
        trace := trace s @ [VerifyInit, GetDeviceRecordPtr di,
                   Printf ''SetReport(reportType %d, reportID %d, report '' [0, sint rid]]
                 @ echo_bytes (injected rid (user_report s))
                 @ [Printf ('')'' @ [CHR 0x0A]) []]\<rparr>)"
  using assms
  by (simp add: validated echo_report_def emit_def bytes_at_def deref_def length_injected)

lemma osx_path:
  assumes "valid_report b s" "rt \<in> {2, 3}" "PSYCH_SYSTEM b = PSYCH_OSX"
    and "PsychHIDGetDeviceInterfacePtrFromIndex e di = Some h"
    and "buf = injected rid (user_report s)"
    and "len = (word_of_int (int (length (user_report s))) :: 32 word)"
    and "ret = setReport e h (rt - 1) rid buf len 50"
  shows "PSYCHHIDSetReport b e di rt rid s =
     (Inr (struct_of e None ret),
      s\<lparr>user_report := buf,
        AInScanStart := stamp_value e rid (AInScanStart s),
        trace := trace s @ [VerifyInit, GetDeviceRecordPtr di, GetDeviceInterfacePtr di,
                   IOHID_setReport h (rt - 1) rid UserBuffer buf len 50]
                 @ stamp_events rid @ [HIDErrors None ret]\<rparr>)"
proof -
  have "rt \<in> {0, 2, 3}" "rt \<noteq> 0"
    using assms(2) by auto
  then show ?thesis
    using assms
    by (simp add: validated [where rt = rt] send_osx_def emit_def bytes_at_def deref_def
        timestamp_def stamp_value_def stamp_events_def struct_of_def Let_def length_injected
        split: prod.splits)
qed

lemma osx_bad_interface:
  assumes "valid_report b s" "rt \<in> {2, 3}" "PSYCH_SYSTEM b = PSYCH_OSX"
    and "PsychHIDGetDeviceInterfacePtrFromIndex e di = None"
  shows "PSYCHHIDSetReport b e di rt rid s =
     (Inl BadInterface,
      s\<lparr>user_report := injected rid (user_report s),
        trace := trace s @ [VerifyInit, GetDeviceRecordPtr di, GetDeviceInterfacePtr di]\<rparr>)"
proof -
  have "rt \<in> {0, 2, 3}" "rt \<noteq> 0"
    using assms(2) by auto
  then show ?thesis
    using assms by (simp add: validated [where rt = rt] send_osx_def emit_def Let_def)
qed

lemma hidapi_nonzero_path:
  assumes "valid_report b s" "rt \<in> {2, 3}" "PSYCH_SYSTEM b \<noteq> PSYCH_OSX" "rid \<noteq> 0"
    and "dev = PsychHIDGetDeviceRecordPtrFromIndex e di"
    and "buf = (user_report s)[0 := ucast (0xff AND rid)]"
    and "ret = hid_send e rt dev buf"
    and "code = (if 0 \<le> ret then 0 else ret)"
  shows "PSYCHHIDSetReport b e di rt rid s =
     (Inr (struct_of e (Some dev) code),
      s\<lparr>user_report := buf,
        AInScanStart := stamp_value e rid (AInScanStart s),
        trace := trace s @ [VerifyInit, GetDeviceRecordPtr di, hid_event rt dev UserBuffer buf]
                 @ stamp_events rid @ [HIDErrors (Some dev) code]\<rparr>)"
proof -
  have "rt \<in> {0, 2, 3}" "rt \<noteq> 0"
    using assms(2) by auto
  then show ?thesis
    using assms
    by (simp add: validated [where rt = rt] send_hidapi_def emit_def bytes_at_def deref_def
        timestamp_def stamp_value_def stamp_events_def struct_of_def hid_send_def hid_event_def
        injected_def Let_def split: prod.splits)
qed

lemma hidapi_zero_path:
  assumes "valid_report b s" "rt \<in> {2, 3}" "PSYCH_SYSTEM b \<noteq> PSYCH_OSX"
    and "length (user_report s) < length (scratchBuffer s)"
    and "dev = PsychHIDGetDeviceRecordPtrFromIndex e di"
    and "buf = 0 # user_report s"
    and "ret = hid_send e rt dev buf"
    and "code = (if 0 \<le> ret then 0 else ret)"
  shows "PSYCHHIDSetReport b e di rt 0 s =
     (Inr (struct_of e (Some dev) code),
      s\<lparr>scratchBuffer := buf @ drop (length buf) (scratchBuffer s),
        trace := trace s @ [VerifyInit, GetDeviceRecordPtr di, hid_event rt dev ScratchBuffer buf,
                   HIDErrors (Some dev) code]\<rparr>)"
proof -
  have rt: "rt \<in> {0, 2, 3}" "rt \<noteq> 0"
    using assms(2) by auto
  let ?n = "length (user_report s)"
  have "memcpy (scratchBuffer s) 1 (user_report s) ?n
      = Some (take 1 (scratchBuffer s) @ user_report s @ drop (1 + ?n) (scratchBuffer s))"
    using assms(4) by (intro memcpy_in_bounds) simp_all
  moreover have
    "(take 1 (scratchBuffer s) @ user_report s @ drop (1 + ?n) (scratchBuffer s))[0 := 0]
      = buf @ drop (length buf) (scratchBuffer s)"
    using assms(4,6) by (cases "scratchBuffer s") simp_all
  ultimately have f:
    "frame_zero_id UserBuffer (int ?n) (s\<lparr>trace := trace s @ [VerifyInit, GetDeviceRecordPtr di]\<rparr>)
     = Some (ScratchBuffer, int ?n + 1,
             s\<lparr>trace := trace s @ [VerifyInit, GetDeviceRecordPtr di],
               scratchBuffer := buf @ drop (length buf) (scratchBuffer s)\<rparr>)"
    using assms(4) by (simp add: frame_zero_id_def deref_def)
  show ?thesis
    using rt assms
    by (simp add: validated [where rt = rt] send_hidapi_def f injected_def emit_def bytes_at_def
        deref_def timestamp_def struct_of_def hid_send_def hid_event_def Let_def nat_add_distrib
        split: prod.splits)
qed

text \<open>
  The copy of line 153 into a scratch buffer that is too short for it: the call ends in
  the fault.
\<close>

lemma hidapi_zero_fault:
  assumes "valid_report b s" "rt \<in> {2, 3}" "PSYCH_SYSTEM b \<noteq> PSYCH_OSX"
    and "length (scratchBuffer s) \<le> length (user_report s)"
  shows "PSYCHHIDSetReport b e di rt 0 s =
     (Inl MemoryFault, s\<lparr>trace := trace s @ [VerifyInit, GetDeviceRecordPtr di]\<rparr>)"
proof -
  have rt: "rt \<in> {0, 2, 3}" "rt \<noteq> 0"
    using assms(2) by auto
  have "memcpy (scratchBuffer s) 1 (user_report s) (length (user_report s)) = None"
    using assms(4) by (simp add: memcpy_def)
  then have f:
    "frame_zero_id UserBuffer (int (length (user_report s)))
       (s\<lparr>trace := trace s @ [VerifyInit, GetDeviceRecordPtr di]\<rparr>) = None"
    by (simp add: frame_zero_id_def deref_def)
  show ?thesis
    using rt assms
    by (simp add: validated [where rt = rt] send_hidapi_def f injected_def)
qed

text \<open>The three exits of the checks leave everything as it was.\<close>

lemma size_rejected:
  "MAXREPORTSIZE b < length (user_report s) \<Longrightarrow>
   PSYCHHIDSetReport b e di rt rid s = (Inl SizeError, s)"
  by (simp add: PSYCHHIDSetReport_def)

lemma empty_rejected:
  "length (user_report s) = 0 \<Longrightarrow>
   PSYCHHIDSetReport b e di rt rid s = (Inl EmptyReportError, s)"
  by (simp add: PSYCHHIDSetReport_def)

lemma type_rejected:
  assumes "valid_report b s" "rt \<notin> {0, 2, 3}"
  shows "PSYCHHIDSetReport b e di rt rid s = (Inl InvalidTypeError, s)"
proof -
  have "rt <s 0 \<or> 3 <s rt \<or> rt = 1"
    using assms(2) type_check [of rt] by blast
  then show ?thesis
    using assms(1) by (auto simp add: PSYCHHIDSetReport_def valid_report_def Let_def)
qed

text \<open>Below \<open>2 ^ 31\<close> bytes the C variable holds the length of the array itself.\<close>

lemma reportSize_exact:
  assumes "n < 2 ^ 31"
  shows "reportSize_of n = int n"
proof -
  have "sint (word_of_nat n :: cint) = signed_take_bit 31 (int n)"
    by (simp add: signed_of_nat)
  also have "\<dots> = int n"
    using assms by (simp add: signed_take_bit_int_eq_self)
  finally show ?thesis
    by (simp add: reportSize_of_def)
qed

text \<open>
  At \<open>2 ^ 31\<close> bytes it does not: the variable is negative, and at \<open>2 ^ 32 + 2\<close> bytes
  it is 2.
\<close>

lemma reportSize_wraps:
  "reportSize_of (2 ^ 31) = - (2 ^ 31)" "reportSize_of (2 ^ 32 + 2) = 2"
  by (simp_all add: reportSize_of_def)

text \<open>The exits are different values: their messages differ.\<close>

lemma abort_distinct:
  "SizeError \<noteq> EmptyReportError" "SizeError \<noteq> InvalidTypeError" "EmptyReportError \<noteq> InvalidTypeError"
  "BadInterface \<notin> validation_errors" "MemoryFault \<notin> validation_errors"
  by (simp_all add: SizeError_def EmptyReportError_def InvalidTypeError_def BadInterface_def
      validation_errors_def)

lemma echo_bytes_map: "echo_bytes bs = map (\<lambda>b. Printf ''%d '' [uint b]) bs"
  by (induction bs) simp_all

text \<open>A nonzero report ID on any path: the first byte is overwritten, the scratch buffer is
  not used, and what a backend gets is the caller's array.\<close>

lemma nonzero_id_result:
  assumes nz: "reportID \<noteq> 0"
    and valid: "valid_report b s"
    and type: "reportType \<in> {0, 2, 3}"
    and call: "PSYCHHIDSetReport b e deviceIndex reportType reportID s = (r, s')"
    and buf: "buf = (user_report s)[0 := ucast (0xff AND reportID)]"
  shows "user_report s' = buf \<and> scratchBuffer s' = scratchBuffer s
       \<and> (r = Inl BadInterface \<or> (\<exists>x. r = Inr x))
       \<and> transmissions (trace s') = transmissions (trace s) @
           (if reportType = 0 \<or> r = Inl BadInterface then [] else [(UserBuffer, buf)])"
proof -
  have inj: "injected reportID (user_report s) = buf"
    using nz buf by (simp add: injected_def)
  show ?thesis
  proof (cases "reportType = 0")
    case True
    then show ?thesis
      using call echo_path [OF valid, of e deviceIndex reportID]
      by (auto simp add: inj transmissions_append transmissions_echo_bytes)
  next
    case False
    then have t: "reportType \<in> {2, 3}"
      using type by auto
    show ?thesis
    proof (cases "PSYCH_SYSTEM b = PSYCH_OSX")
      case osx: True
      show ?thesis
      proof (cases "PsychHIDGetDeviceInterfacePtrFromIndex e deviceIndex")
        case None
        then show ?thesis
          using call osx_bad_interface [OF valid t osx None, of reportID]
          by (auto simp add: inj transmissions_append)
      next
        case (Some h)
        then show ?thesis
          using call False osx_path [OF valid t osx Some refl refl refl, of reportID]
          by (auto simp add: inj transmissions_append stamp_events_def)
      qed
    next
      case other: False
      show ?thesis
        using call False hidapi_nonzero_path [OF valid t other nz refl refl refl refl] buf
        by (auto simp add: transmissions_append stamp_events_def hid_event_def)
    qed
  qed
qed

text \<open>
  Every call takes one of nine paths; on each the result and the final state are known.
\<close>

lemma call_cases:
  obtains
    (TooLarge) "MAXREPORTSIZE b < length (user_report s)"
      "PSYCHHIDSetReport b e di rt rid s = (Inl SizeError, s)"
  | (Empty) "length (user_report s) = 0"
      "PSYCHHIDSetReport b e di rt rid s = (Inl EmptyReportError, s)"
  | (BadType) "valid_report b s" "rt \<notin> {0, 2, 3}"
      "PSYCHHIDSetReport b e di rt rid s = (Inl InvalidTypeError, s)"
  | (Echo) "valid_report b s" "rt = 0"
      "PSYCHHIDSetReport b e di rt rid s =
        (Inr \<lparr>err_n = 0, err_name = [], err_description = []\<rparr>,
         s\<lparr>user_report := injected rid (user_report s),
           trace := trace s @ [VerifyInit, GetDeviceRecordPtr di,
                      Printf ''SetReport(reportType %d, reportID %d, report '' [0, sint rid]]
                    @ echo_bytes (injected rid (user_report s))
                    @ [Printf ('')'' @ [CHR 0x0A]) []]\<rparr>)"
  | (NoInterface) "valid_report b s" "rt \<in> {2, 3}" "PSYCH_SYSTEM b = PSYCH_OSX"
      "PsychHIDGetDeviceInterfacePtrFromIndex e di = None"
      "PSYCHHIDSetReport b e di rt rid s =
        (Inl BadInterface,
         s\<lparr>user_report := injected rid (user_report s),
           trace := trace s @ [VerifyInit, GetDeviceRecordPtr di, GetDeviceInterfacePtr di]\<rparr>)"
  | (Osx) h ret where "valid_report b s" "rt \<in> {2, 3}" "PSYCH_SYSTEM b = PSYCH_OSX"
      "PsychHIDGetDeviceInterfacePtrFromIndex e di = Some h"
      "PSYCHHIDSetReport b e di rt rid s =
        (Inr (struct_of e None ret),
         s\<lparr>user_report := injected rid (user_report s),
           AInScanStart := stamp_value e rid (AInScanStart s),
           trace := trace s @ [VerifyInit, GetDeviceRecordPtr di, GetDeviceInterfacePtr di,
                      IOHID_setReport h (rt - 1) rid UserBuffer (injected rid (user_report s))
                        (word_of_int (int (length (user_report s)))) 50]
                    @ stamp_events rid @ [HIDErrors None ret]\<rparr>)"
  | (Direct) dev code where "valid_report b s" "rt \<in> {2, 3}" "PSYCH_SYSTEM b \<noteq> PSYCH_OSX"
      "rid \<noteq> 0"
      "PSYCHHIDSetReport b e di rt rid s =
        (Inr (struct_of e (Some dev) code),
         s\<lparr>user_report := (user_report s)[0 := ucast (0xff AND rid)],
           AInScanStart := stamp_value e rid (AInScanStart s),
           trace := trace s @ [VerifyInit, GetDeviceRecordPtr di,
                      hid_event rt dev UserBuffer ((user_report s)[0 := ucast (0xff AND rid)])]
                    @ stamp_events rid @ [HIDErrors (Some dev) code]\<rparr>)"
  | (Framed) dev code where "valid_report b s" "rt \<in> {2, 3}" "PSYCH_SYSTEM b \<noteq> PSYCH_OSX"
      "rid = 0" "length (user_report s) < length (scratchBuffer s)"
      "PSYCHHIDSetReport b e di rt rid s =
        (Inr (struct_of e (Some dev) code),
         s\<lparr>scratchBuffer := (0 # user_report s) @ drop (length (0 # user_report s)) (scratchBuffer s),
           trace := trace s @ [VerifyInit, GetDeviceRecordPtr di,
                      hid_event rt dev ScratchBuffer (0 # user_report s),
                      HIDErrors (Some dev) code]\<rparr>)"
  | (Fault) "valid_report b s" "rt \<in> {2, 3}" "PSYCH_SYSTEM b \<noteq> PSYCH_OSX"
      "rid = 0" "length (scratchBuffer s) \<le> length (user_report s)"
      "PSYCHHIDSetReport b e di rt rid s =
        (Inl MemoryFault, s\<lparr>trace := trace s @ [VerifyInit, GetDeviceRecordPtr di]\<rparr>)"
proof (cases "MAXREPORTSIZE b < length (user_report s)")
  case True
  show ?thesis
    by (rule TooLarge [OF True size_rejected [OF True]])
next
  case fits: False
  show ?thesis
  proof (cases "length (user_report s) = 0")
    case True
    show ?thesis
      by (rule Empty [OF True empty_rejected [OF True]])
  next
    case False
    with fits have valid: "valid_report b s"
      by (cases "user_report s") (simp_all add: valid_report_def)
    show ?thesis
    proof (cases "rt \<in> {0, 2, 3}")
      case False
      show ?thesis
        by (rule BadType [OF valid False type_rejected [OF valid False]])
    next
      case ok: True
      show ?thesis
      proof (cases "rt = 0")
        case True
        then show ?thesis
          using Echo [OF valid True] echo_path [OF valid, of e di rid] by simp
      next
        case False
        with ok have t: "rt \<in> {2, 3}"
          by auto
        show ?thesis
        proof (cases "PSYCH_SYSTEM b = PSYCH_OSX")
          case osx: True
          show ?thesis
          proof (cases "PsychHIDGetDeviceInterfacePtrFromIndex e di")
            case None
            show ?thesis
              by (rule NoInterface [OF valid t osx None osx_bad_interface [OF valid t osx None]])
          next
            case (Some h)
            show ?thesis
              by (rule Osx [OF valid t osx Some osx_path [OF valid t osx Some refl refl refl]])
          qed
        next
          case other: False
          show ?thesis
          proof (cases "rid = 0")
            case nz: False
            show ?thesis
              by (rule Direct [OF valid t other nz
                    hidapi_nonzero_path [OF valid t other nz refl refl refl refl]])
          next
            case z: True
            show ?thesis
            proof (cases "length (user_report s) < length (scratchBuffer s)")
              case True
              then show ?thesis
                using Framed [OF valid t other z True]
                  hidapi_zero_path [OF valid t other True refl refl refl refl, of e di] z
                by simp
            next
              case False
              then have short: "length (scratchBuffer s) \<le> length (user_report s)"
                by simp
              show ?thesis
                using Fault [OF valid t other z short]
                  hidapi_zero_fault [OF valid t other short, of e di] z
                by simp
            qed
          qed
        qed
      qed
    qed
  qed
qed

lemma captures_Nil: "captures [] = 0"
  by (simp add: captures_def)

lemma captures_Cons:
  "captures (ev # evs) = (if ev = GetPrecisionTimerSeconds then 1 else 0) + captures evs"
  by (simp add: captures_def)

lemmas captures_simps = captures_Nil captures_Cons captures_append captures_echo_bytes

text \<open>The time stamp is taken on the paths that return from a backend, for report 0x11.\<close>

lemma stamp_general:
  assumes "PSYCHHIDSetReport b e di rt rid s = (r, s')"
  shows "captures (trace s') = captures (trace s) +
           (if rid = 0x11 \<and> rt \<noteq> 0 \<and> (\<exists>x. r = Inr x) then 1 else 0)
       \<and> AInScanStart s' =
           (if rid = 0x11 \<and> rt \<noteq> 0 \<and> (\<exists>x. r = Inr x) then PsychGetPrecisionTimerSeconds e
            else AInScanStart s)"
proof (cases rule: call_cases [of b s e di rt rid])
  case TooLarge
  then show ?thesis using assms by auto
next
  case Empty
  then show ?thesis using assms by auto
next
  case BadType
  then show ?thesis using assms by auto
next
  case Echo
  then show ?thesis using assms by (auto simp add: captures_simps)
next
  case NoInterface
  then show ?thesis using assms by (auto simp add: captures_simps)
next
  case (Osx h ret)
  then show ?thesis using assms by (auto simp add: captures_simps stamp_events_def stamp_value_def)
next
  case (Direct dev code)
  then show ?thesis using assms
    by (auto simp add: captures_simps stamp_events_def stamp_value_def hid_event_def)
next
  case (Framed dev code)
  then show ?thesis using assms by (auto simp add: captures_simps hid_event_def)
next
  case Fault
  then show ?thesis using assms by (auto simp add: captures_simps)
qed

lemma abort_simps:
  "SizeError \<noteq> BadInterface" "SizeError \<noteq> MemoryFault" "EmptyReportError \<noteq> BadInterface"
  "EmptyReportError \<noteq> MemoryFault" "InvalidTypeError \<noteq> BadInterface"
  "InvalidTypeError \<noteq> MemoryFault" "BadInterface \<noteq> MemoryFault"
  by (simp_all add: SizeError_def EmptyReportError_def InvalidTypeError_def BadInterface_def)

lemma valid_outcome:
  assumes valid: "valid_report b s"
  shows "fst (PSYCHHIDSetReport b e di rt rid s) \<noteq> Inl SizeError
       \<and> fst (PSYCHHIDSetReport b e di rt rid s) \<noteq> Inl EmptyReportError"
proof (cases rule: call_cases [of b s e di rt rid])
  case TooLarge
  then show ?thesis using valid by (simp add: valid_report_def)
next
  case Empty
  then show ?thesis using valid by (simp add: valid_report_def)
next
  case BadType
  then show ?thesis using abort_distinct by simp
next
  case Echo
  then show ?thesis by simp
next
  case NoInterface
  then show ?thesis using abort_simps by simp
next
  case (Osx h ret)
  then show ?thesis by simp
next
  case (Direct dev code)
  then show ?thesis by simp
next
  case (Framed dev code)
  then show ?thesis by simp
next
  case Fault
  then show ?thesis using abort_simps by simp
qed

lemma never_type_error:
  assumes type: "rt \<in> {0, 2, 3}"
  shows "fst (PSYCHHIDSetReport b e di rt rid s) \<noteq> Inl InvalidTypeError"
proof (cases rule: call_cases [of b s e di rt rid])
  case TooLarge
  then show ?thesis using abort_distinct by simp
next
  case Empty
  then show ?thesis using abort_distinct by simp
next
  case BadType
  then show ?thesis using type by simp
next
  case Echo
  then show ?thesis by simp
next
  case NoInterface
  then show ?thesis using abort_simps by simp
next
  case (Osx h ret)
  then show ?thesis by simp
next
  case (Direct dev code)
  then show ?thesis by simp
next
  case (Framed dev code)
  then show ?thesis by simp
next
  case Fault
  then show ?thesis using abort_simps by simp
qed

lemma scratch_general:
  assumes scratch: "length (scratchBuffer s) = MAXREPORTSIZE b + 1"
  shows "fst (PSYCHHIDSetReport b e di rt rid s) \<noteq> Inl MemoryFault
       \<and> length (scratchBuffer (snd (PSYCHHIDSetReport b e di rt rid s))) = MAXREPORTSIZE b + 1"
proof (cases rule: call_cases [of b s e di rt rid])
  case TooLarge
  then show ?thesis using scratch abort_simps by auto
next
  case Empty
  then show ?thesis using scratch abort_simps by auto
next
  case BadType
  then show ?thesis using scratch abort_simps by auto
next
  case Echo
  then show ?thesis using scratch by simp
next
  case NoInterface
  then show ?thesis using scratch abort_simps by simp
next
  case (Osx h ret)
  then show ?thesis using scratch by simp
next
  case (Direct dev code)
  then show ?thesis using scratch by simp
next
  case (Framed dev code)
  then show ?thesis using scratch by simp
next
  case Fault
  then show ?thesis using scratch by (simp add: valid_report_def)
qed

section \<open>The report ID and the buffer\<close>

text \<open>
  Claim C1. For every \<^verbatim>\<open>reportID\<close> from 1 to 255 and every report whose size passes
  the checks (and a report type that passes its check), the caller's array after the call
  has \<^verbatim>\<open>reportID & 0xFF\<close>, which is \<^verbatim>\<open>reportID\<close> itself, as its first byte and its
  other bytes as they were. If a backend is called at all (not on the echo path, and not
  when OS X has no interface for the device), it is called once, with the pointer to the
  caller's array and these bytes: the scratch buffer is not involved.
\<close>

theorem C1_nonzero_reportID_overwrites_first_byte:
  assumes id: "1 \<le> sint reportID" "sint reportID \<le> 255"
    and valid: "valid_report b s"
    and type: "reportType \<in> {0, 2, 3}"
    and call: "PSYCHHIDSetReport b e deviceIndex reportType reportID s = (r, s')"
  shows "length (user_report s') = length (user_report s)
       \<and> user_report s' ! 0 = ucast (0xff AND reportID)
       \<and> uint (user_report s' ! 0) = sint reportID
       \<and> drop 1 (user_report s') = drop 1 (user_report s)
       \<and> transmissions (trace s') = transmissions (trace s) @
           (if reportType = 0 \<or> r = Inl BadInterface then [] else [(UserBuffer, user_report s')])"
proof -
  have nz: "reportID \<noteq> 0"
    using id(1) by auto
  let ?buf = "(user_report s)[0 := ucast (0xff AND reportID)]"
  have pos: "0 < length (user_report s)"
    using valid by (auto simp add: valid_report_def)
  have res: "user_report s' = ?buf"
    "transmissions (trace s') = transmissions (trace s) @
       (if reportType = 0 \<or> r = Inl BadInterface then [] else [(UserBuffer, ?buf)])"
    using nonzero_id_result [OF nz valid type call refl] by simp_all
  have "uint (?buf ! 0) = sint reportID"
    using pos by (simp add: low_byte_id [OF id])
  moreover have "drop 1 ?buf = drop 1 (user_report s)"
    by (simp add: drop_update_cancel)
  ultimately show ?thesis
    using res pos by simp
qed

text \<open>
  The second scenario of the specification on the HIDAPI backend: a feature report with
  ID 5 over the bytes 00 11 22.
\<close>

theorem C1_witness:
  "1 \<le> sint (5 :: cint) \<and> sint (5 :: cint) \<le> 255
   \<and> valid_report (mock_build PSYCH_LINUX) (mock_state [0x00, 0x11, 0x22])
   \<and> (3 :: cint) \<in> {0, 2, 3}
   \<and> PSYCHHIDSetReport (mock_build PSYCH_LINUX) (mock 3) 1 3 5 (mock_state [0x00, 0x11, 0x22]) =
       (Inr \<lparr>err_n = 0, err_name = [], err_description = []\<rparr>,
        \<lparr>user_report = [0x05, 0x11, 0x22], scratchBuffer = [9, 9, 9, 9, 9], AInScanStart = 0,
         trace = [VerifyInit, GetDeviceRecordPtr 1,
                  HID_send_feature_report 1 UserBuffer [0x05, 0x11, 0x22] 3,
                  HIDErrors (Some 1) 0]\<rparr>)"
  using C1_nonzero_reportID_overwrites_first_byte
    [of 5 "mock_build PSYCH_LINUX" "mock_state [0x00, 0x11, 0x22]" 3 "mock 3" 1
        "fst (PSYCHHIDSetReport (mock_build PSYCH_LINUX) (mock 3) 1 3 5 (mock_state [0x00, 0x11, 0x22]))"
        "snd (PSYCHHIDSetReport (mock_build PSYCH_LINUX) (mock 3) 1 3 5 (mock_state [0x00, 0x11, 0x22]))"]
  by (simp add: valid_report_def mock_build_def mock_state_def mock_def PSYCHHIDSetReport_def
      inject_reportID_def store_first_def send_hidapi_def emit_def bytes_at_def deref_def
      timestamp_def Let_def word_sless_alt)

text \<open>
  Claim C2. On a platform other than OS X, a report with \<^verbatim>\<open>reportID\<close> 0 of valid size
  \<open>n\<close>, sent as an output or feature report, reaches the backend through the scratch
  buffer: the backend gets \<open>n + 1\<close> bytes, a zero byte followed by the caller's bytes, and
  the caller's array is left as it was. The scratch buffer has the size of its
  declaration, \<^verbatim>\<open>MAXREPORTSIZE+1\<close>.
\<close>

theorem C2_zero_reportID_is_framed_in_scratch:
  assumes other: "PSYCH_SYSTEM b \<noteq> PSYCH_OSX"
    and valid: "valid_report b s"
    and type: "reportType \<in> {2, 3}"
    and scratch: "length (scratchBuffer s) = MAXREPORTSIZE b + 1"
    and call: "PSYCHHIDSetReport b e deviceIndex reportType 0 s = (r, s')"
    and dev: "dev = PsychHIDGetDeviceRecordPtrFromIndex e deviceIndex"
  shows "user_report s' = user_report s
       \<and> transmissions (trace s') = transmissions (trace s) @ [(ScratchBuffer, 0 # user_report s)]
       \<and> (\<exists>code. trace s' = trace s @
            [VerifyInit, GetDeviceRecordPtr deviceIndex,
             if reportType = 2
             then HID_write dev ScratchBuffer (0 # user_report s) (length (user_report s) + 1)
             else HID_send_feature_report dev ScratchBuffer (0 # user_report s)
                    (length (user_report s) + 1),
             HIDErrors (Some dev) code])"
proof -
  have fits: "length (user_report s) < length (scratchBuffer s)"
    using valid scratch by (simp add: valid_report_def)
  show ?thesis
    using call hidapi_zero_path [OF valid type other fits dev refl refl refl]
    by (auto simp add: transmissions_append hid_event_def)
qed

text \<open>The first scenario of the specification: an output report AA BB without ID.\<close>

theorem C2_witness:
  "PSYCH_SYSTEM (mock_build PSYCH_LINUX) \<noteq> PSYCH_OSX
   \<and> valid_report (mock_build PSYCH_LINUX) (mock_state [0xAA, 0xBB])
   \<and> (2 :: cint) \<in> {2, 3}
   \<and> length (scratchBuffer (mock_state [0xAA, 0xBB])) = MAXREPORTSIZE (mock_build PSYCH_LINUX) + 1
   \<and> PSYCHHIDSetReport (mock_build PSYCH_LINUX) (mock 3) 1 2 0 (mock_state [0xAA, 0xBB]) =
       (Inr \<lparr>err_n = 0, err_name = [], err_description = []\<rparr>,
        \<lparr>user_report = [0xAA, 0xBB], scratchBuffer = [0x00, 0xAA, 0xBB, 9, 9], AInScanStart = 0,
         trace = [VerifyInit, GetDeviceRecordPtr 1, HID_write 1 ScratchBuffer [0x00, 0xAA, 0xBB] 3,
                  HIDErrors (Some 1) 0]\<rparr>)"
  using C2_zero_reportID_is_framed_in_scratch
    [of "mock_build PSYCH_LINUX" "mock_state [0xAA, 0xBB]" 2 "mock 3" 1
        "fst (PSYCHHIDSetReport (mock_build PSYCH_LINUX) (mock 3) 1 2 0 (mock_state [0xAA, 0xBB]))"
        "snd (PSYCHHIDSetReport (mock_build PSYCH_LINUX) (mock 3) 1 2 0 (mock_state [0xAA, 0xBB]))" 1]
  by (simp add: valid_report_def mock_build_def mock_state_def mock_def PSYCHHIDSetReport_def
      inject_reportID_def store_first_def send_hidapi_def frame_zero_id_def memcpy_def emit_def
      bytes_at_def deref_def timestamp_def Let_def word_sless_alt)

text \<open>
  Claim C9. \<^verbatim>\<open>reportID\<close> is not range checked: with a report of valid size and a
  valid report type no value of it, inside or outside 0..255, ends the call in a
  validation error. A value below 0 or above 255 is nonzero, and every nonzero value takes
  the path of line 124: the first byte becomes its low byte, whatever that is, and the
  HIDAPI backend gets the caller's array and not a framed copy, the scratch buffer being
  left alone.
\<close>

theorem C9_reportID_not_range_checked:
  assumes valid: "valid_report b s"
    and type: "reportType \<in> {0, 2, 3}"
    and call: "PSYCHHIDSetReport b e deviceIndex reportType reportID s = (r, s')"
  shows "(\<forall>a. r = Inl a \<longrightarrow> a \<notin> validation_errors)
       \<and> (sint reportID < 0 \<or> 255 < sint reportID \<longrightarrow> reportID \<noteq> 0)
       \<and> (reportID \<noteq> 0 \<longrightarrow>
            user_report s' = (user_report s)[0 := ucast (0xff AND reportID)]
            \<and> scratchBuffer s' = scratchBuffer s
            \<and> transmissions (trace s') = transmissions (trace s) @
                 (if reportType = 0 \<or> r = Inl BadInterface then []
                  else [(UserBuffer, user_report s')]))"
proof -
  have "r \<noteq> Inl SizeError" "r \<noteq> Inl EmptyReportError"
    using valid_outcome [OF valid, of e deviceIndex reportType reportID] call by simp_all
  moreover have "r \<noteq> Inl InvalidTypeError"
    using never_type_error [OF type, of b e deviceIndex reportID s] call by simp
  ultimately have passes: "\<forall>a. r = Inl a \<longrightarrow> a \<notin> validation_errors"
    by (auto simp add: validation_errors_def)
  have nonzero: "reportID \<noteq> 0" if "sint reportID < 0 \<or> 255 < sint reportID"
    using that by auto
  have path: "user_report s' = (user_report s)[0 := ucast (0xff AND reportID)]
            \<and> scratchBuffer s' = scratchBuffer s
            \<and> transmissions (trace s') = transmissions (trace s) @
                 (if reportType = 0 \<or> r = Inl BadInterface then []
                  else [(UserBuffer, user_report s')])"
    if nz: "reportID \<noteq> 0"
    using nonzero_id_result [OF nz valid type call refl] by simp
  show ?thesis
    using passes nonzero path by blast
qed

text \<open>\<^verbatim>\<open>reportID\<close> 256 has the low byte 0: the first byte is zeroed and nothing is framed.\<close>

theorem C9_witness:
  "valid_report (mock_build PSYCH_LINUX) (mock_state [0xAA, 0xBB])
   \<and> (2 :: cint) \<in> {0, 2, 3}
   \<and> (sint (256 :: cint) < 0 \<or> 255 < sint (256 :: cint))
   \<and> (256 :: cint) \<noteq> 0
   \<and> (ucast (0xff AND (256 :: cint)) :: byte) = 0
   \<and> PSYCHHIDSetReport (mock_build PSYCH_LINUX) (mock 2) 1 2 256 (mock_state [0xAA, 0xBB]) =
       (Inr \<lparr>err_n = 0, err_name = [], err_description = []\<rparr>,
        \<lparr>user_report = [0x00, 0xBB], scratchBuffer = [9, 9, 9, 9, 9], AInScanStart = 0,
         trace = [VerifyInit, GetDeviceRecordPtr 1, HID_write 1 UserBuffer [0x00, 0xBB] 2,
                  HIDErrors (Some 1) 0]\<rparr>)"
proof -
  have valid: "valid_report (mock_build PSYCH_LINUX) (mock_state [0xAA, 0xBB])"
    by (simp add: valid_report_def mock_build_def mock_state_def)
  have type: "(2 :: cint) \<in> {0, 2, 3}"
    by simp
  have sent:
    "PSYCHHIDSetReport (mock_build PSYCH_LINUX) (mock 2) 1 2 256 (mock_state [0xAA, 0xBB]) =
       (Inr \<lparr>err_n = 0, err_name = [], err_description = []\<rparr>,
        \<lparr>user_report = [0x00, 0xBB], scratchBuffer = [9, 9, 9, 9, 9], AInScanStart = 0,
         trace = [VerifyInit, GetDeviceRecordPtr 1, HID_write 1 UserBuffer [0x00, 0xBB] 2,
                  HIDErrors (Some 1) 0]\<rparr>)"
    by (simp add: mock_build_def mock_state_def mock_def PSYCHHIDSetReport_def
        inject_reportID_def store_first_def send_hidapi_def emit_def bytes_at_def deref_def
        timestamp_def Let_def word_sless_alt)
  have range: "sint (256 :: cint) < 0 \<or> 255 < sint (256 :: cint)" "(256 :: cint) \<noteq> 0"
    "(ucast (0xff AND (256 :: cint)) :: byte) = 0"
    by simp_all
  note C9_reportID_not_range_checked [OF valid type sent]
  with valid type range sent show ?thesis
    by blast
qed

section \<open>The echo path\<close>

text \<open>
  Claim C6. With \<^verbatim>\<open>reportType\<close> 0 and a report of valid size the call returns the code
  0 with empty name and description and calls no backend. After the device lookup it only
  prints: the report type and ID, every byte of the report (as line 124 left it), and the
  closing parenthesis.
\<close>

theorem C6_echo_sends_nothing:
  assumes valid: "valid_report b s"
    and call: "PSYCHHIDSetReport b e deviceIndex 0 reportID s = (r, s')"
  shows "r = Inr \<lparr>err_n = 0, err_name = [], err_description = []\<rparr>
       \<and> transmissions (trace s') = transmissions (trace s)
       \<and> trace s' = trace s @
            [VerifyInit, GetDeviceRecordPtr deviceIndex,
             Printf ''SetReport(reportType %d, reportID %d, report '' [0, sint reportID]]
            @ map (\<lambda>b. Printf ''%d '' [uint b]) (user_report s')
            @ [Printf ('')'' @ [CHR 0x0A]) []]
       \<and> user_report s' = injected reportID (user_report s)
       \<and> scratchBuffer s' = scratchBuffer s
       \<and> AInScanStart s' = AInScanStart s"
proof -
  have "(r, s') =
     (Inr \<lparr>err_n = 0, err_name = [], err_description = []\<rparr>,
      s\<lparr>user_report := injected reportID (user_report s),
        trace := trace s @ [VerifyInit, GetDeviceRecordPtr deviceIndex,
                   Printf ''SetReport(reportType %d, reportID %d, report '' [0, sint reportID]]
                 @ echo_bytes (injected reportID (user_report s))
                 @ [Printf ('')'' @ [CHR 0x0A]) []]\<rparr>)"
    using call echo_path [OF valid, of e deviceIndex reportID] by simp
  then have r: "r = Inr \<lparr>err_n = 0, err_name = [], err_description = []\<rparr>"
    and s': "s' = s\<lparr>user_report := injected reportID (user_report s),
        trace := trace s @ [VerifyInit, GetDeviceRecordPtr deviceIndex,
                   Printf ''SetReport(reportType %d, reportID %d, report '' [0, sint reportID]]
                 @ echo_bytes (injected reportID (user_report s))
                 @ [Printf ('')'' @ [CHR 0x0A]) []]\<rparr>"
    by simp_all
  have "transmissions (trace s') = transmissions (trace s)"
    by (simp add: s' transmissions_append transmissions_echo_bytes)
  then show ?thesis
    using r by (simp add: s' echo_bytes_map)
qed

theorem C6_witness:
  "valid_report (mock_build PSYCH_OSX) (mock_state [1, 2])
   \<and> PSYCHHIDSetReport (mock_build PSYCH_OSX) (mock (- 1)) 1 0 7 (mock_state [1, 2]) =
       (Inr \<lparr>err_n = 0, err_name = [], err_description = []\<rparr>,
        \<lparr>user_report = [7, 2], scratchBuffer = [9, 9, 9, 9, 9], AInScanStart = 0,
         trace = [VerifyInit, GetDeviceRecordPtr 1,
                  Printf ''SetReport(reportType %d, reportID %d, report '' [0, 7],
                  Printf ''%d '' [7], Printf ''%d '' [2], Printf ('')'' @ [CHR 0x0A]) []]\<rparr>)"
  using C6_echo_sends_nothing
    [of "mock_build PSYCH_OSX" "mock_state [1, 2]" "mock (- 1)" 1 7
        "fst (PSYCHHIDSetReport (mock_build PSYCH_OSX) (mock (- 1)) 1 0 7 (mock_state [1, 2]))"
        "snd (PSYCHHIDSetReport (mock_build PSYCH_OSX) (mock (- 1)) 1 0 7 (mock_state [1, 2]))"]
  by (simp add: valid_report_def mock_build_def mock_state_def PSYCHHIDSetReport_def
      inject_reportID_def store_first_def echo_report_def emit_def injected_def
      bytes_at_def deref_def Let_def word_sless_alt)

section \<open>The time stamp\<close>

text \<open>
  Claim C3, as it stands, fails on the echo path: a call with \<^verbatim>\<open>reportType\<close> 0 and
  \<^verbatim>\<open>reportID\<close> 0x11 passes the checks, prints its arguments and returns without reading
  the timer, since lines 143-144 and 174-175 are inside the branch that sends.
\<close>

theorem C3_counterexample:
  "valid_report (mock_build PSYCH_LINUX) (mock_state [1, 2, 3])
   \<and> PSYCHHIDSetReport (mock_build PSYCH_LINUX) (mock 0) 1 0 0x11 (mock_state [1, 2, 3]) =
       (Inr \<lparr>err_n = 0, err_name = [], err_description = []\<rparr>,
        \<lparr>user_report = [0x11, 2, 3], scratchBuffer = [9, 9, 9, 9, 9], AInScanStart = 0,
         trace = [VerifyInit, GetDeviceRecordPtr 1,
                  Printf ''SetReport(reportType %d, reportID %d, report '' [0, 17],
                  Printf ''%d '' [17], Printf ''%d '' [2], Printf ''%d '' [3],
                  Printf ('')'' @ [CHR 0x0A]) []]\<rparr>)
   \<and> captures (trace (snd (PSYCHHIDSetReport (mock_build PSYCH_LINUX) (mock 0) 1 0 0x11
         (mock_state [1, 2, 3])))) = 0"
  by (simp add: valid_report_def mock_build_def mock_state_def PSYCHHIDSetReport_def
      inject_reportID_def store_first_def echo_report_def emit_def captures_def
      bytes_at_def deref_def Let_def word_sless_alt)

text \<open>
  Claim C3, amended. A call that passes the checks with \<^verbatim>\<open>reportType\<close> 2 or 3 and
  \<^verbatim>\<open>reportID\<close> 0x11 (on OS X: with an interface for the device) takes exactly one time
  stamp into \<^verbatim>\<open>AInScanStart\<close>, whatever the backend returns. A call with
  \<^verbatim>\<open>reportType\<close> 0, and a call with any other \<^verbatim>\<open>reportID\<close>, takes none and leaves
  \<^verbatim>\<open>AInScanStart\<close> as it was.
\<close>

theorem C3_time_stamp_follows_transmission:
  assumes call: "PSYCHHIDSetReport b e deviceIndex reportType reportID s = (r, s')"
  shows "(valid_report b s \<and> reportType \<in> {2, 3} \<and> reportID = 0x11
          \<and> (PSYCH_SYSTEM b = PSYCH_OSX \<longrightarrow>
               PsychHIDGetDeviceInterfacePtrFromIndex e deviceIndex \<noteq> None)
          \<longrightarrow> captures (trace s') = captures (trace s) + 1
              \<and> AInScanStart s' = PsychGetPrecisionTimerSeconds e)
       \<and> (reportType = 0 \<or> reportID \<noteq> 0x11
          \<longrightarrow> captures (trace s') = captures (trace s) \<and> AInScanStart s' = AInScanStart s)"
proof -
  note g = stamp_general [OF call]
  have "\<exists>x. r = Inr x"
    if v: "valid_report b s" and t: "reportType \<in> {2, 3}" and i: "reportID = 0x11"
      and f: "PSYCH_SYSTEM b = PSYCH_OSX \<longrightarrow>
              PsychHIDGetDeviceInterfacePtrFromIndex e deviceIndex \<noteq> None"
  proof (cases "PSYCH_SYSTEM b = PSYCH_OSX")
    case True
    with f obtain h where h: "PsychHIDGetDeviceInterfacePtrFromIndex e deviceIndex = Some h"
      by auto
    show ?thesis
      using call osx_path [OF v t True h refl refl refl, of reportID] by auto
  next
    case False
    have nz: "reportID \<noteq> 0"
      using i by simp
    show ?thesis
      using call hidapi_nonzero_path [OF v t False nz refl refl refl refl, of e deviceIndex]
      by auto
  qed
  moreover have "reportType \<noteq> 0" if "reportType \<in> {2, 3}"
    using that by auto
  ultimately show ?thesis
    using g by auto
qed

text \<open>
  A failed write (the backend returns -1) of report 0x11 is stamped once; the same write
  of report 5 is not stamped.
\<close>

theorem C3_witness:
  "valid_report (mock_build PSYCH_LINUX) (mock_state [1, 2, 3])
   \<and> (2 :: cint) \<in> {2, 3}
   \<and> PSYCH_SYSTEM (mock_build PSYCH_LINUX) \<noteq> PSYCH_OSX
   \<and> PSYCHHIDSetReport (mock_build PSYCH_LINUX) (mock (- 1)) 1 2 0x11 (mock_state [1, 2, 3]) =
       (Inr \<lparr>err_n = - 1, err_name = ''error'', err_description = ''failed''\<rparr>,
        \<lparr>user_report = [0x11, 2, 3], scratchBuffer = [9, 9, 9, 9, 9], AInScanStart = 42,
         trace = [VerifyInit, GetDeviceRecordPtr 1, HID_write 1 UserBuffer [0x11, 2, 3] 3,
                  GetPrecisionTimerSeconds, HIDErrors (Some 1) (- 1)]\<rparr>)
   \<and> captures (trace (snd (PSYCHHIDSetReport (mock_build PSYCH_LINUX) (mock (- 1)) 1 2 0x11
         (mock_state [1, 2, 3])))) = 1
   \<and> (5 :: cint) \<noteq> 0x11
   \<and> captures (trace (snd (PSYCHHIDSetReport (mock_build PSYCH_LINUX) (mock (- 1)) 1 2 5
         (mock_state [1, 2, 3])))) = 0"
  using C3_time_stamp_follows_transmission
    [of "mock_build PSYCH_LINUX" "mock (- 1)" 1 2 "0x11" "mock_state [1, 2, 3]"
        "fst (PSYCHHIDSetReport (mock_build PSYCH_LINUX) (mock (- 1)) 1 2 0x11 (mock_state [1, 2, 3]))"
        "snd (PSYCHHIDSetReport (mock_build PSYCH_LINUX) (mock (- 1)) 1 2 0x11 (mock_state [1, 2, 3]))"]
    C3_time_stamp_follows_transmission
    [of "mock_build PSYCH_LINUX" "mock (- 1)" 1 2 5 "mock_state [1, 2, 3]"
        "fst (PSYCHHIDSetReport (mock_build PSYCH_LINUX) (mock (- 1)) 1 2 5 (mock_state [1, 2, 3]))"
        "snd (PSYCHHIDSetReport (mock_build PSYCH_LINUX) (mock (- 1)) 1 2 5 (mock_state [1, 2, 3]))"]
  by (simp add: valid_report_def mock_build_def mock_state_def mock_def PSYCHHIDSetReport_def
      inject_reportID_def store_first_def send_hidapi_def emit_def captures_def
      bytes_at_def deref_def timestamp_def Let_def word_sless_alt)

section \<open>The checks\<close>

text \<open>
  Claim C4. For a report whose number of bytes fits the C \<^verbatim>\<open>int\<close> that holds it (fewer
  than \<open>2 ^ 31\<close> bytes, so that \<^verbatim>\<open>reportSize\<close> is the length of the report): an empty
  report ends the call with the empty-report error and a report longer than
  \<^verbatim>\<open>MAXREPORTSIZE\<close> with the size error, in both cases with the memory and the trace
  exactly as they were, so that nothing was written and nothing was called. At the
  boundary, \<^verbatim>\<open>MAXREPORTSIZE+1\<close> bytes are refused and \<^verbatim>\<open>MAXREPORTSIZE\<close> bytes pass both
  size checks (for a \<^verbatim>\<open>MAXREPORTSIZE\<close> of at least 1), and with a report type of 0, 2 or
  3 the type check as well.
\<close>

theorem C4_size_checks:
  assumes fits: "length (user_report s) < 2 ^ 31"
  shows "reportSize_of (length (user_report s)) = int (length (user_report s))
   \<and> (length (user_report s) = 0 \<longrightarrow>
      PSYCHHIDSetReport b e deviceIndex reportType reportID s = (Inl EmptyReportError, s))
   \<and> (MAXREPORTSIZE b < length (user_report s) \<longrightarrow>
      PSYCHHIDSetReport b e deviceIndex reportType reportID s = (Inl SizeError, s))
   \<and> (length (user_report s) = MAXREPORTSIZE b + 1 \<longrightarrow>
      PSYCHHIDSetReport b e deviceIndex reportType reportID s = (Inl SizeError, s))
   \<and> (1 \<le> MAXREPORTSIZE b \<and> length (user_report s) = MAXREPORTSIZE b \<longrightarrow>
      fst (PSYCHHIDSetReport b e deviceIndex reportType reportID s) \<noteq> Inl SizeError
      \<and> fst (PSYCHHIDSetReport b e deviceIndex reportType reportID s) \<noteq> Inl EmptyReportError
      \<and> (reportType \<in> {0, 2, 3} \<longrightarrow>
           fst (PSYCHHIDSetReport b e deviceIndex reportType reportID s) \<noteq> Inl InvalidTypeError))"
proof -
  have "valid_report b s" if "1 \<le> MAXREPORTSIZE b" "length (user_report s) = MAXREPORTSIZE b"
    using that by (simp add: valid_report_def)
  then show ?thesis
    using valid_outcome [of b s e deviceIndex reportType reportID]
      never_type_error [of reportType b e deviceIndex reportID s]
      reportSize_exact [OF fits]
    by (auto simp add: empty_rejected size_rejected)
qed

text \<open>
  An empty report, a report of \<^verbatim>\<open>MAXREPORTSIZE+1\<close> bytes and one of \<^verbatim>\<open>MAXREPORTSIZE\<close>
  bytes, which is sent.
\<close>

theorem C4_witness:
  "length (user_report (mock_state [])) < 2 ^ 31
   \<and> length (user_report (mock_state [])) = 0
   \<and> PSYCHHIDSetReport (mock_build PSYCH_LINUX) (mock 0) 1 2 0 (mock_state []) =
      (Inl EmptyReportError, mock_state [])
   \<and> length (user_report (mock_state [1, 2, 3, 4, 5])) < 2 ^ 31
   \<and> MAXREPORTSIZE (mock_build PSYCH_LINUX) < length (user_report (mock_state [1, 2, 3, 4, 5]))
   \<and> length (user_report (mock_state [1, 2, 3, 4, 5])) = MAXREPORTSIZE (mock_build PSYCH_LINUX) + 1
   \<and> PSYCHHIDSetReport (mock_build PSYCH_LINUX) (mock 0) 1 2 0 (mock_state [1, 2, 3, 4, 5]) =
      (Inl SizeError, mock_state [1, 2, 3, 4, 5])
   \<and> length (user_report (mock_state [1, 2, 3, 4])) < 2 ^ 31
   \<and> 1 \<le> MAXREPORTSIZE (mock_build PSYCH_LINUX)
   \<and> length (user_report (mock_state [1, 2, 3, 4])) = MAXREPORTSIZE (mock_build PSYCH_LINUX)
   \<and> (2 :: cint) \<in> {0, 2, 3}
   \<and> fst (PSYCHHIDSetReport (mock_build PSYCH_LINUX) (mock 5) 1 2 0 (mock_state [1, 2, 3, 4])) =
      Inr \<lparr>err_n = 0, err_name = [], err_description = []\<rparr>
   \<and> transmissions (trace (snd (PSYCHHIDSetReport (mock_build PSYCH_LINUX) (mock 5) 1 2 0
        (mock_state [1, 2, 3, 4])))) = [(ScratchBuffer, [0, 1, 2, 3, 4])]"
proof -
  have f0: "length (user_report (mock_state [])) < 2 ^ 31"
    and f5: "length (user_report (mock_state [1, 2, 3, 4, 5])) < 2 ^ 31"
    and f4: "length (user_report (mock_state [1, 2, 3, 4])) < 2 ^ 31"
    by (simp_all add: mock_state_def)
  show ?thesis
    using f0 f5 f4
      C4_size_checks [OF f0, of "mock_build PSYCH_LINUX" "mock 0" 1 2 0]
      C4_size_checks [OF f5, of "mock_build PSYCH_LINUX" "mock 0" 1 2 0]
      C4_size_checks [OF f4, of "mock_build PSYCH_LINUX" "mock 5" 1 2 0]
    by (simp add: mock_build_def mock_state_def mock_def PSYCHHIDSetReport_def
        inject_reportID_def send_hidapi_def frame_zero_id_def memcpy_def emit_def
        bytes_at_def deref_def timestamp_def Let_def word_sless_alt)
qed

text \<open>
  Claim C5. A \<^verbatim>\<open>reportType\<close> other than 0, 2 and 3 (that is 1, a negative value or a
  value above 3) always ends the call in one of the three validation errors with the
  memory and the trace as they were, so nothing is sent; when the size of the report is
  valid, the error is the invalid-type error. A \<^verbatim>\<open>reportType\<close> of 0, 2 or 3 never
  ends in the invalid-type error.
\<close>

theorem C5_type_check:
  "(reportType \<notin> {0, 2, 3}) = (reportType <s 0 \<or> 3 <s reportType \<or> reportType = 1)
   \<and> (reportType \<notin> {0, 2, 3} \<longrightarrow>
        (\<exists>a. a \<in> validation_errors
           \<and> PSYCHHIDSetReport b e deviceIndex reportType reportID s = (Inl a, s))
        \<and> (valid_report b s \<longrightarrow>
             PSYCHHIDSetReport b e deviceIndex reportType reportID s = (Inl InvalidTypeError, s)))
   \<and> (reportType \<in> {0, 2, 3} \<longrightarrow>
        fst (PSYCHHIDSetReport b e deviceIndex reportType reportID s) \<noteq> Inl InvalidTypeError)"
proof -
  have eq: "(reportType \<notin> {0, 2, 3}) = (reportType <s 0 \<or> 3 <s reportType \<or> reportType = 1)"
    using type_check [of reportType] by blast
  have rejected: "\<exists>a. a \<in> validation_errors
           \<and> PSYCHHIDSetReport b e deviceIndex reportType reportID s = (Inl a, s)"
    if bad: "reportType \<notin> {0, 2, 3}"
  proof (cases rule: call_cases [of b s e deviceIndex reportType reportID])
    case TooLarge
    then show ?thesis by (auto simp add: validation_errors_def)
  next
    case Empty
    then show ?thesis by (auto simp add: validation_errors_def)
  next
    case BadType
    then show ?thesis by (auto simp add: validation_errors_def)
  next
    case Echo
    then show ?thesis using bad by simp
  next
    case NoInterface
    then show ?thesis using bad by simp
  next
    case (Osx h ret)
    then show ?thesis using bad by simp
  next
    case (Direct dev code)
    then show ?thesis using bad by simp
  next
    case (Framed dev code)
    then show ?thesis using bad by simp
  next
    case Fault
    then show ?thesis using bad by simp
  qed
  show ?thesis
    using eq rejected type_rejected [of b s reportType e deviceIndex reportID]
      never_type_error [of reportType b e deviceIndex reportID s]
    by blast
qed

text \<open>Types 1, -1 and 4 are refused; type 3 is sent.\<close>

theorem C5_witness:
  "((1 :: cint) \<notin> {0, 2, 3}) \<and> ((- 1 :: cint) \<notin> {0, 2, 3}) \<and> ((4 :: cint) \<notin> {0, 2, 3})
   \<and> valid_report (mock_build PSYCH_LINUX) (mock_state [1, 2])
   \<and> PSYCHHIDSetReport (mock_build PSYCH_LINUX) (mock 0) 1 1 0 (mock_state [1, 2]) =
        (Inl InvalidTypeError, mock_state [1, 2])
   \<and> PSYCHHIDSetReport (mock_build PSYCH_LINUX) (mock 0) 1 (- 1) 0 (mock_state [1, 2]) =
        (Inl InvalidTypeError, mock_state [1, 2])
   \<and> PSYCHHIDSetReport (mock_build PSYCH_LINUX) (mock 0) 1 4 0 (mock_state [1, 2]) =
        (Inl InvalidTypeError, mock_state [1, 2])
   \<and> (3 :: cint) \<in> {0, 2, 3}
   \<and> fst (PSYCHHIDSetReport (mock_build PSYCH_LINUX) (mock 0) 1 3 0 (mock_state [1, 2])) =
        Inr \<lparr>err_n = 0, err_name = [], err_description = []\<rparr>"
  using C5_type_check [of 1 "mock_build PSYCH_LINUX" "mock 0" 1 0 "mock_state [1, 2]"]
    C5_type_check [of "- 1" "mock_build PSYCH_LINUX" "mock 0" 1 0 "mock_state [1, 2]"]
    C5_type_check [of 4 "mock_build PSYCH_LINUX" "mock 0" 1 0 "mock_state [1, 2]"]
    C5_type_check [of 3 "mock_build PSYCH_LINUX" "mock 0" 1 0 "mock_state [1, 2]"]
  by (simp add: valid_report_def mock_build_def mock_state_def mock_def PSYCHHIDSetReport_def
      inject_reportID_def send_hidapi_def frame_zero_id_def memcpy_def emit_def
      bytes_at_def deref_def timestamp_def Let_def word_sless_alt)

section \<open>The backends\<close>

text \<open>
  Claim C7. On a platform other than OS X, whatever the backend returns for the buffer it
  is given: a negative value is the returned code \<^verbatim>\<open>n\<close>, any other value becomes 0, and
  that code is the one the error lookup is called with and whose name and description
  are returned.
\<close>

theorem C7_hidapi_return_normalised:
  assumes other: "PSYCH_SYSTEM b \<noteq> PSYCH_OSX"
    and valid: "valid_report b s"
    and type: "reportType \<in> {2, 3}"
    and scratch: "length (scratchBuffer s) = MAXREPORTSIZE b + 1"
    and call: "PSYCHHIDSetReport b e deviceIndex reportType reportID s = (r, s')"
    and dev: "dev = PsychHIDGetDeviceRecordPtrFromIndex e deviceIndex"
    and buf: "buf = (if reportID = 0 then 0 # user_report s
                     else (user_report s)[0 := ucast (0xff AND reportID)])"
    and ret: "ret = (if reportType = 2 then hid_write e dev buf (length buf)
                     else hid_send_feature_report e dev buf (length buf))"
  shows "\<exists>x. r = Inr x
           \<and> err_n x = (if ret < 0 then ret else 0)
           \<and> (err_name x, err_description x) = PsychHIDErrors e (Some dev) (err_n x)
           \<and> last (trace s') = HIDErrors (Some dev) (err_n x)"
proof (cases "reportID = 0")
  case True
  have fits: "length (user_report s) < length (scratchBuffer s)"
    using valid scratch by (simp add: valid_report_def)
  have "ret = hid_send e reportType dev (0 # user_report s)"
    using ret buf True by (simp add: hid_send_def)
  then show ?thesis
    using call True hidapi_zero_path [OF valid type other fits dev refl refl refl]
    by (auto simp add: struct_of_def)
next
  case False
  have "ret = hid_send e reportType dev ((user_report s)[0 := ucast (0xff AND reportID)])"
    using ret buf False by (simp add: hid_send_def)
  then show ?thesis
    using call hidapi_nonzero_path [OF valid type other False dev refl refl refl]
    by (auto simp add: struct_of_def)
qed

text \<open>A write that returns -1 and a write that returns 3, the number of bytes written.\<close>

theorem C7_witness:
  "PSYCH_SYSTEM (mock_build PSYCH_WINDOWS) \<noteq> PSYCH_OSX
   \<and> valid_report (mock_build PSYCH_WINDOWS) (mock_state [1, 2])
   \<and> (2 :: cint) \<in> {2, 3}
   \<and> length (scratchBuffer (mock_state [1, 2])) = MAXREPORTSIZE (mock_build PSYCH_WINDOWS) + 1
   \<and> PSYCHHIDSetReport (mock_build PSYCH_WINDOWS) (mock (- 1)) 1 2 0 (mock_state [1, 2]) =
       (Inr \<lparr>err_n = - 1, err_name = ''error'', err_description = ''failed''\<rparr>,
        \<lparr>user_report = [1, 2], scratchBuffer = [0, 1, 2, 9, 9], AInScanStart = 0,
         trace = [VerifyInit, GetDeviceRecordPtr 1, HID_write 1 ScratchBuffer [0, 1, 2] 3,
                  HIDErrors (Some 1) (- 1)]\<rparr>)
   \<and> PSYCHHIDSetReport (mock_build PSYCH_WINDOWS) (mock 3) 1 2 0 (mock_state [1, 2]) =
       (Inr \<lparr>err_n = 0, err_name = [], err_description = []\<rparr>,
        \<lparr>user_report = [1, 2], scratchBuffer = [0, 1, 2, 9, 9], AInScanStart = 0,
         trace = [VerifyInit, GetDeviceRecordPtr 1, HID_write 1 ScratchBuffer [0, 1, 2] 3,
                  HIDErrors (Some 1) 0]\<rparr>)"
proof -
  have other: "PSYCH_SYSTEM (mock_build PSYCH_WINDOWS) \<noteq> PSYCH_OSX"
    by (simp add: mock_build_def)
  have valid: "valid_report (mock_build PSYCH_WINDOWS) (mock_state [1, 2])"
    by (simp add: valid_report_def mock_build_def mock_state_def)
  have type: "(2 :: cint) \<in> {2, 3}"
    by simp
  have scratch:
    "length (scratchBuffer (mock_state [1, 2])) = MAXREPORTSIZE (mock_build PSYCH_WINDOWS) + 1"
    by (simp add: mock_build_def mock_state_def)
  have failed:
    "PSYCHHIDSetReport (mock_build PSYCH_WINDOWS) (mock (- 1)) 1 2 0 (mock_state [1, 2]) =
       (Inr \<lparr>err_n = - 1, err_name = ''error'', err_description = ''failed''\<rparr>,
        \<lparr>user_report = [1, 2], scratchBuffer = [0, 1, 2, 9, 9], AInScanStart = 0,
         trace = [VerifyInit, GetDeviceRecordPtr 1, HID_write 1 ScratchBuffer [0, 1, 2] 3,
                  HIDErrors (Some 1) (- 1)]\<rparr>)"
    by (simp add: mock_build_def mock_state_def mock_def PSYCHHIDSetReport_def
        inject_reportID_def send_hidapi_def frame_zero_id_def memcpy_def emit_def
        bytes_at_def deref_def timestamp_def Let_def word_sless_alt)
  have written:
    "PSYCHHIDSetReport (mock_build PSYCH_WINDOWS) (mock 3) 1 2 0 (mock_state [1, 2]) =
       (Inr \<lparr>err_n = 0, err_name = [], err_description = []\<rparr>,
        \<lparr>user_report = [1, 2], scratchBuffer = [0, 1, 2, 9, 9], AInScanStart = 0,
         trace = [VerifyInit, GetDeviceRecordPtr 1, HID_write 1 ScratchBuffer [0, 1, 2] 3,
                  HIDErrors (Some 1) 0]\<rparr>)"
    by (simp add: mock_build_def mock_state_def mock_def PSYCHHIDSetReport_def
        inject_reportID_def send_hidapi_def frame_zero_id_def memcpy_def emit_def
        bytes_at_def deref_def timestamp_def Let_def word_sless_alt)
  note C7_hidapi_return_normalised [OF other valid type scratch failed refl refl refl]
    C7_hidapi_return_normalised [OF other valid type scratch written refl refl refl]
  with other valid type scratch failed written show ?thesis
    by blast
qed

text \<open>
  Claim C8. On OS X, an output or feature report of valid size for a device with an
  interface calls \<^verbatim>\<open>setReport\<close> exactly once: with the interface, \<^verbatim>\<open>reportType - 1\<close>,
  \<^verbatim>\<open>reportID\<close>, the caller's array as line 124 left it, its length and the time-out 50.
  No other backend call is in the trace.
\<close>

theorem C8_osx_setReport_called_once:
  assumes osx: "PSYCH_SYSTEM b = PSYCH_OSX"
    and valid: "valid_report b s"
    and type: "reportType \<in> {2, 3}"
    and iface: "PsychHIDGetDeviceInterfacePtrFromIndex e deviceIndex = Some h"
    and call: "PSYCHHIDSetReport b e deviceIndex reportType reportID s = (r, s')"
    and buf: "buf = (if reportID \<noteq> 0 then (user_report s)[0 := ucast (0xff AND reportID)]
                     else user_report s)"
    and len: "len = (word_of_int (int (length (user_report s))) :: 32 word)"
  shows "(\<exists>ret. trace s' = trace s @
            [VerifyInit, GetDeviceRecordPtr deviceIndex, GetDeviceInterfacePtr deviceIndex,
             IOHID_setReport h (reportType - 1) reportID UserBuffer buf len 50]
            @ (if reportID = 0x11 then [GetPrecisionTimerSeconds] else [])
            @ [HIDErrors None ret])
       \<and> transmissions (trace s') = transmissions (trace s) @ [(UserBuffer, buf)]
       \<and> user_report s' = buf
       \<and> sint (reportType - 1) = sint reportType - 1
       \<and> (MAXREPORTSIZE b < 2 ^ 32 \<longrightarrow> unat len = length (user_report s))"
proof -
  have inj: "injected reportID (user_report s) = buf"
    using buf by (simp add: injected_def)
  have st: "sint (reportType - 1) = sint reportType - 1"
    using type by auto
  have "unat len = length (user_report s)" if "MAXREPORTSIZE b < 2 ^ 32"
  proof -
    have "length (user_report s) < 2 ^ 32"
      using that valid by (simp add: valid_report_def)
    then show ?thesis
      using len by (simp add: unat_of_nat)
  qed
  then show ?thesis
    using call st osx_path [OF valid type osx iface refl refl refl, of reportID]
    by (auto simp add: inj len transmissions_append stamp_events_def)
qed

text \<open>A feature report with ID 4: the backend's report type is 2.\<close>

theorem C8_witness:
  "PSYCH_SYSTEM (mock_build PSYCH_OSX) = PSYCH_OSX
   \<and> valid_report (mock_build PSYCH_OSX) (mock_state [0, 7, 8])
   \<and> (3 :: cint) \<in> {2, 3}
   \<and> PsychHIDGetDeviceInterfacePtrFromIndex (mock 0) 1 = Some 1
   \<and> PSYCHHIDSetReport (mock_build PSYCH_OSX) (mock 0) 1 3 4 (mock_state [0, 7, 8]) =
       (Inr \<lparr>err_n = 0, err_name = [], err_description = []\<rparr>,
        \<lparr>user_report = [4, 7, 8], scratchBuffer = [9, 9, 9, 9, 9], AInScanStart = 0,
         trace = [VerifyInit, GetDeviceRecordPtr 1, GetDeviceInterfacePtr 1,
                  IOHID_setReport 1 2 4 UserBuffer [4, 7, 8] 3 50, HIDErrors None 0]\<rparr>)"
proof -
  have osx: "PSYCH_SYSTEM (mock_build PSYCH_OSX) = PSYCH_OSX"
    by (simp add: mock_build_def)
  have valid: "valid_report (mock_build PSYCH_OSX) (mock_state [0, 7, 8])"
    by (simp add: valid_report_def mock_build_def mock_state_def)
  have type: "(3 :: cint) \<in> {2, 3}"
    by simp
  have iface: "PsychHIDGetDeviceInterfacePtrFromIndex (mock 0) 1 = Some 1"
    by (simp add: mock_def)
  have sent:
    "PSYCHHIDSetReport (mock_build PSYCH_OSX) (mock 0) 1 3 4 (mock_state [0, 7, 8]) =
       (Inr \<lparr>err_n = 0, err_name = [], err_description = []\<rparr>,
        \<lparr>user_report = [4, 7, 8], scratchBuffer = [9, 9, 9, 9, 9], AInScanStart = 0,
         trace = [VerifyInit, GetDeviceRecordPtr 1, GetDeviceInterfacePtr 1,
                  IOHID_setReport 1 2 4 UserBuffer [4, 7, 8] 3 50, HIDErrors None 0]\<rparr>)"
    by (simp add: mock_build_def mock_state_def mock_def PSYCHHIDSetReport_def
        inject_reportID_def store_first_def send_osx_def emit_def
        bytes_at_def deref_def timestamp_def Let_def word_sless_alt)
  note C8_osx_setReport_called_once [OF osx valid type iface sent refl refl]
  with osx valid type iface sent show ?thesis
    by blast
qed

section \<open>The scratch buffer\<close>

text \<open>A scratch buffer one byte shorter than declared would be overrun by a full report.\<close>

lemma short_scratch_faults:
  "PSYCHHIDSetReport (mock_build PSYCH_LINUX) (mock 5) 1 2 0
     ((mock_state [1, 2, 3, 4])\<lparr>scratchBuffer := [9, 9, 9, 9]\<rparr>) =
   (Inl MemoryFault,
    \<lparr>user_report = [1, 2, 3, 4], scratchBuffer = [9, 9, 9, 9], AInScanStart = 0,
     trace = [VerifyInit, GetDeviceRecordPtr 1]\<rparr>)"
  by (simp add: mock_build_def mock_state_def mock_def PSYCHHIDSetReport_def
      inject_reportID_def send_hidapi_def frame_zero_id_def memcpy_def emit_def
      deref_def Let_def word_sless_alt)

text \<open>
  Claim C10. With the scratch buffer at its declared size of \<^verbatim>\<open>MAXREPORTSIZE+1\<close> bytes
  and a report of at most \<^verbatim>\<open>MAXREPORTSIZE\<close> bytes, the copy of line 153 to index 1 ends
  inside the buffer; no call ends in a memory fault, whatever its other arguments, and
  the buffer keeps its size.
\<close>

theorem C10_framing_copy_in_bounds:
  assumes scratch: "length (scratchBuffer s) = MAXREPORTSIZE b + 1"
    and size: "length (user_report s) \<le> MAXREPORTSIZE b"
  shows "1 + length (user_report s) \<le> length (scratchBuffer s)
       \<and> memcpy (scratchBuffer s) 1 (user_report s) (length (user_report s)) =
           Some (take 1 (scratchBuffer s) @ user_report s
                 @ drop (1 + length (user_report s)) (scratchBuffer s))
       \<and> fst (PSYCHHIDSetReport b e deviceIndex reportType reportID s) \<noteq> Inl MemoryFault
       \<and> length (scratchBuffer (snd (PSYCHHIDSetReport b e deviceIndex reportType reportID s)))
           = MAXREPORTSIZE b + 1"
proof -
  have fits: "1 + length (user_report s) \<le> length (scratchBuffer s)"
    using scratch size by simp
  then have "memcpy (scratchBuffer s) 1 (user_report s) (length (user_report s)) =
           Some (take 1 (scratchBuffer s) @ user_report s
                 @ drop (1 + length (user_report s)) (scratchBuffer s))"
    by (intro memcpy_in_bounds) simp_all
  then show ?thesis
    using fits scratch_general [OF scratch, of e deviceIndex reportType reportID] by simp
qed

text \<open>A report of exactly \<^verbatim>\<open>MAXREPORTSIZE\<close> bytes fills the scratch buffer to its last byte.\<close>

theorem C10_witness:
  "length (scratchBuffer (mock_state [1, 2, 3, 4])) = MAXREPORTSIZE (mock_build PSYCH_LINUX) + 1
   \<and> length (user_report (mock_state [1, 2, 3, 4])) \<le> MAXREPORTSIZE (mock_build PSYCH_LINUX)
   \<and> PSYCHHIDSetReport (mock_build PSYCH_LINUX) (mock 5) 1 2 0 (mock_state [1, 2, 3, 4]) =
       (Inr \<lparr>err_n = 0, err_name = [], err_description = []\<rparr>,
        \<lparr>user_report = [1, 2, 3, 4], scratchBuffer = [0, 1, 2, 3, 4], AInScanStart = 0,
         trace = [VerifyInit, GetDeviceRecordPtr 1, HID_write 1 ScratchBuffer [0, 1, 2, 3, 4] 5,
                  HIDErrors (Some 1) 0]\<rparr>)"
  using C10_framing_copy_in_bounds
    [of "mock_state [1, 2, 3, 4]" "mock_build PSYCH_LINUX" "mock 5" 1 2 0]
  by (simp add: mock_build_def mock_state_def mock_def PSYCHHIDSetReport_def
      inject_reportID_def send_hidapi_def frame_zero_id_def memcpy_def emit_def
      bytes_at_def deref_def timestamp_def Let_def word_sless_alt)

end
